theory Spec2Isabelle
  imports Main "HOL-Library.Sublist"
begin

section \<open>JavaScript values\<close>

text \<open>
  The values that the two source files test for truthiness or compare with \<open>!==\<close> are
  primitives: strings, numbers, booleans, \<open>null\<close> and \<open>undefined\<close>. On primitives strict
  equality is equality of the value, so \<open>!==\<close> is \<open>\<noteq>\<close> on \<open>jsval\<close> (numbers are
  integers here, there is no NaN).
\<close>

datatype jsval = Undefined | Null | JBool bool | JNum int | JStr string

fun truthy :: "jsval \<Rightarrow> bool" where
  "truthy Undefined = False"
| "truthy Null = False"
| "truthy (JBool b) = b"
| "truthy (JNum n) = (n \<noteq> 0)"
| "truthy (JStr s) = (s \<noteq> [])"

text \<open>A plain object is a list of properties; reading a missing property gives \<open>undefined\<close>.\<close>

type_synonym obj = "(string \<times> jsval) list"

definition get_prop :: "obj \<Rightarrow> string \<Rightarrow> jsval" where
  "get_prop ob k = (case map_of ob k of None \<Rightarrow> Undefined | Some v \<Rightarrow> v)"

text \<open>An optional string (\<open>string | undefined\<close>): its truthiness and its rendering in a
  template literal.\<close>

definition truthy_str :: "string option \<Rightarrow> bool" where
  "truthy_str s = (case s of None \<Rightarrow> False | Some t \<Rightarrow> t \<noteq> [])"

definition template :: "string option \<Rightarrow> string" where
  "template s = (case s of None \<Rightarrow> ''undefined'' | Some t \<Rightarrow> t)"

text \<open>\<open>String.prototype.includes\<close>: the argument occurs as a contiguous substring.\<close>

fun str_includes :: "string \<Rightarrow> string \<Rightarrow> bool" where
  "str_includes [] t = (t = [])"
| "str_includes (c # cs) t = (if take (length t) (c # cs) = t then True else str_includes cs t)"

text \<open>\<open>String.prototype.split\<close> with a one-character separator: never the empty array.\<close>

fun str_split :: "char \<Rightarrow> string \<Rightarrow> string list" where
  "str_split d [] = [[]]"
| "str_split d (c # cs) =
     (if c = d then [] # str_split d cs
      else (case str_split d cs of [] \<Rightarrow> [[c]] | w # ws \<Rightarrow> (c # w) # ws))"

section \<open>Data model\<close>

text \<open>
  The types (\<open>Auth\<close>, \<open>DatabaseSchema\<close>, \<open>DatabaseWhere\<close>, the enums and the response
  objects) are declared outside the two source files. Each record below holds the
  properties that the sources read or write; the enums have the members that the sources
  and the specification name.
\<close>

datatype auth_type = APIKEY | JWT

datatype auth_location = HEADER | QUERY | BODY

datatype where_operator = equals | null_operator

datatype query_perform = FIND | FIND_ONE | FIND_MANY | UNIQUE | CREATE | UPDATE | DELETE

datatype role_permission = READ | WRITE | DELETE_PERMISSION

record database_where =
  column :: string
  operator :: where_operator
  wvalue :: jsval

text \<open>Modelled from the spec: the relation descriptor (foreign table, join column) of the
  schema; the sources read its table only.\<close>

record database_relation =
  rel_table :: string
  rel_join :: string

record database_schema =
  table :: string
  primary_key :: "string option"

text \<open>The parameter object handed to \<open>Query.perform\<close>; every call site fills the
  properties its verb needs and leaves the others out.\<close>

record options =
  o_schema :: database_schema
  o_fields :: "string list option"
  o_where :: "database_where list option"
  o_relations :: "database_relation list option"
  o_data :: "obj option"
  o_id :: "string option"

text \<open>\<open>auth.table\<close> (\<open>AuthAPIKey\<close>) and one entry of the \<open>auth\<close> configuration (\<open>Auth\<close>).\<close>

record auth_table =
  t_name :: string
  t_column :: "string option"
  t_identity_column :: "string option"

record auth =
  a_type :: "auth_type option"
  a_name :: "string option"
  a_location :: "auth_location option"
  a_table :: auth_table

text \<open>A row of the route-rule table \<open>LLANA_AUTH_TABLE\<close>: the two columns \<open>auth\<close> reads.\<close>

record rule_row =
  exclude :: jsval
  rr_table :: string

record auth_response =
  valid :: bool
  message :: "string option"
  user_identifier :: jsval

record request =
  originalUrl :: string
  headers :: "(string \<times> string) list"
  query :: obj
  body :: obj

record validate_fields_response =
  vf_valid :: bool
  vf_message :: "string option"
  vf_fields :: "string list"
  vf_relations :: "database_relation list"

record jwt_config =
  secret :: jsval

record jwt_payload =
  sub :: jsval

section \<open>Observable calls\<close>

text \<open>
  Every call that leaves the function under study (to the schema service, the query
  engine, the token service, the authentication and role services) is recorded, in order,
  as an event. A run returns its result together with the list of its events. Calls to
  the logger are not recorded: they never influence control flow.
\<close>

datatype event =
    GetSchema string
  | ValidateFields database_schema string
  | VerifyAsync string jsval
  | Perform query_perform options "string option"
  | GetSchemaFor string "string option"
  | Auth request "string option"
  | TablePermission jsval string role_permission "string option"
  | ValidateData database_schema obj
  | GetPrimaryKey database_schema

definition emit :: "event \<Rightarrow> 'a \<times> event list \<Rightarrow> 'a \<times> event list" where
  "emit ev r = (fst r, ev # snd r)"

section \<open>Authentication.auth\<close>

text \<open>
  What \<open>auth\<close> reads from the configuration and the services it calls. Services whose
  failure the sources handle or the specification announces (\<open>getSchema\<close>,
  \<open>Query.perform\<close>, \<open>verifyAsync\<close>) return \<open>Inl\<close> of the error message when they throw.
  \<open>perform\<close> has one entry per verb, typed by the cast at its call site.
  \<open>LLANA_AUTH_TABLE\<close>, the values of the \<open>AuthType\<close> enum and \<open>findDotNotation\<close> are
  declared outside the two source files and are parameters here.
\<close>

record auth_env =
  authentications :: "auth list option"
  soft_delete :: "string option"
  jwt :: "jwt_config option"
  IsTest :: bool
  LLANA_AUTH_TABLE :: string
  AuthType_value :: "auth_type \<Rightarrow> jsval"
  getSchema :: "string \<Rightarrow> string + database_schema"
  validateFields :: "database_schema \<Rightarrow> string \<Rightarrow> validate_fields_response"
  perform_FIND_MANY :: "options \<Rightarrow> string + rule_row list"
  perform_FIND :: "options \<Rightarrow> string + obj option"
  verifyAsync :: "string \<Rightarrow> jsval \<Rightarrow> string + jwt_payload"
  findDotNotation :: "obj \<Rightarrow> string \<Rightarrow> jsval"

text \<open>How one iteration of the loop over the rules ends: \<open>continue\<close> (or falling out of
  the \<open>switch\<close>) with the running result, \<open>return\<close>, or an exception that leaves \<open>auth\<close>.\<close>

datatype completion = Continue auth_response | Return auth_response | Throw string

definition failed :: "string \<Rightarrow> auth_response" where
  "failed m = \<lparr>valid = False, message = Some m, user_identifier = Undefined\<rparr>"

definition passed :: "jsval \<Rightarrow> auth_response" where
  "passed uid = \<lparr>valid = True, message = None, user_identifier = uid\<rparr>"

text \<open>Lines 57 to 90: is the rule required on the current route?\<close>

definition check_required :: "string \<Rightarrow> rule_row list \<Rightarrow> bool" where
  "check_required url rules_data =
     (let excludes = filter (\<lambda>rule. truthy (exclude rule)) rules_data;
          includes_list = filter (\<lambda>rule. truthy (exclude rule)) rules_data;
          after_excludes =
            foldl (\<lambda>required ex. if str_includes url (rr_table ex) then False else required)
              True excludes
      in foldl (\<lambda>required inc. if str_includes url (rr_table inc) then True else required)
           after_excludes includes_list)"

text \<open>Lines 128 to 161: the key at the configured location, or the failed result of a
  missing one.\<close>

definition header :: "request \<Rightarrow> string \<Rightarrow> jsval" where
  "header req k = (case map_of (headers req) k of None \<Rightarrow> Undefined | Some s \<Rightarrow> JStr s)"

definition request_key :: "request \<Rightarrow> auth_location \<Rightarrow> string \<Rightarrow> auth_response + jsval" where
  "request_key req loc nm =
     (case loc of
        HEADER \<Rightarrow>
          (if \<not> truthy (header req nm)
           then Inl (failed (''API key header '' @ nm @ '' required''))
           else Inr (header req nm))
      | QUERY \<Rightarrow>
          (if \<not> truthy (get_prop (query req) nm)
           then Inl (failed (''API key query '' @ nm @ '' required''))
           else Inr (get_prop (query req) nm))
      | BODY \<Rightarrow>
          (if \<not> truthy (get_prop (body req) nm)
           then Inl (failed (''API key body '' @ nm @ '' required''))
           else Inr (get_prop (body req) nm)))"

text \<open>Lines 227 to 237: fields and relations are pushed unless already there.\<close>

definition push_fields :: "string list \<Rightarrow> string list \<Rightarrow> string list" where
  "push_fields start extra = foldl (\<lambda>acc f. if f \<in> set acc then acc else acc @ [f]) start extra"

definition push_relations ::
  "database_relation list \<Rightarrow> database_relation list \<Rightarrow> database_relation list" where
  "push_relations start extra =
     foldl (\<lambda>acc r. if list_ex (\<lambda>x. rel_table x = rel_table r) acc then acc else acc @ [r])
       start extra"

text \<open>Lines 249 to 253: the test that sends the request away. The left operand of
  \<open>!==\<close> is \<open>(!result[column] && findDotNotation(result, column))\<close>: the boolean \<open>false\<close>
  when the column read directly is truthy, the dotted lookup otherwise.\<close>

definition key_mismatch :: "auth_env \<Rightarrow> obj option \<Rightarrow> string \<Rightarrow> jsval \<Rightarrow> bool" where
  "key_mismatch env result col req_api_key =
     (case result of
        None \<Rightarrow> True
      | Some row \<Rightarrow>
          (if truthy (get_prop row col) then JBool False else findDotNotation env row col)
            \<noteq> req_api_key)"

text \<open>Lines 109 to 280, the \<open>APIKEY\<close> arm.\<close>

definition api_key_lookup ::
  "auth_env \<Rightarrow> database_schema \<Rightarrow> string option \<Rightarrow> auth \<Rightarrow> string \<Rightarrow> jsval \<Rightarrow>
     auth_response \<Rightarrow> completion \<times> event list" where
  "api_key_lookup env schema identity_column a col req_api_key auth_passed =
     (let api_key_config = a_table a;
          vf = validateFields env schema col;
          auth_passed_after_validate =
            (if \<not> vf_valid vf
             then \<lparr>valid = False, message = vf_message vf, user_identifier = Undefined\<rparr>
             else auth_passed);
          where_clauses =
            [\<lparr>column = col, operator = equals, wvalue = req_api_key\<rparr>] @
            (if truthy_str (soft_delete env)
             then [\<lparr>column = template (soft_delete env), operator = null_operator,
                    wvalue = Undefined\<rparr>]
             else []);
          find_options =
            \<lparr>o_schema = schema,
             o_fields = Some (push_fields
               [t_name api_key_config @ ''.'' @ template identity_column] (vf_fields vf)),
             o_where = Some where_clauses,
             o_relations = Some (push_relations [] (vf_relations vf)),
             o_data = None, o_id = None\<rparr>
      in emit (ValidateFields schema col)
          (emit (Perform FIND find_options None)
            (case perform_FIND env find_options of
               Inl e \<Rightarrow> (Throw e, [])
             | Inr result \<Rightarrow>
                 (if key_mismatch env result col req_api_key
                  then (Return (failed ''Unauthorized''), [])
                  else (case result of
                          None \<Rightarrow> (Return (failed ''Unauthorized''), [])
                        | Some row \<Rightarrow>
                            (if \<not> truthy (get_prop row (template identity_column))
                             then (Return (failed
                                     (''System configuration error: Identity column '' @
                                      template identity_column @ '' not found'')), [])
                             else (Continue (passed (get_prop row (template identity_column))),
                                   [])))))))"

definition api_key ::
  "auth_env \<Rightarrow> request \<Rightarrow> database_schema \<Rightarrow> string option \<Rightarrow> auth \<Rightarrow> auth_response \<Rightarrow>
     completion \<times> event list" where
  "api_key env req schema identity_column a auth_passed =
     (if \<not> truthy_str (a_name a)
      then (Continue (failed ''System configuration error: API key name required''), [])
      else (case a_location a of
              None \<Rightarrow>
                (Continue (failed ''System configuration error: API key location required''),
                 [])
            | Some loc \<Rightarrow>
                (case request_key req loc (template (a_name a)) of
                   Inl missing \<Rightarrow> (Continue missing, [])
                 | Inr req_api_key \<Rightarrow>
                     (if \<not> truthy req_api_key
                      then (Continue (failed ''API key required''), [])
                      else if IsTest env
                      then (Continue (passed Undefined), [])
                      else if t_name (a_table a) = []
                      then (Continue (failed
                              ''System configuration error: API Key lookup table not found''),
                            [])
                      else if \<not> truthy_str (t_column (a_table a))
                      then (Continue (failed
                              ''System configuration error: API Key lookup column not found''),
                            [])
                      else api_key_lookup env schema identity_column a
                             (template (t_column (a_table a))) req_api_key auth_passed))))"

text \<open>Lines 282 to 311, the \<open>JWT\<close> arm. Reading \<open>jwt_config.secret\<close> happens inside the
  \<open>try\<close>: a missing \<open>jwt\<close> configuration is caught like a failed verification.\<close>

definition jwt_token :: "request \<Rightarrow> string option" where
  "jwt_token req =
     (case map_of (headers req) ''authorization'' of
        None \<Rightarrow> None
      | Some h \<Rightarrow> (case str_split (CHR '' '') h of _ # t # _ \<Rightarrow> Some t | _ \<Rightarrow> None))"

definition jwt_auth :: "auth_env \<Rightarrow> request \<Rightarrow> completion \<times> event list" where
  "jwt_auth env req =
     (if \<not> truthy_str (jwt_token req)
      then (Continue (failed ''JWT token required''), [])
      else (case jwt env of
              None \<Rightarrow> (Continue (failed ''JWT Authentication Failed''), [])
            | Some jwt_config \<Rightarrow>
                emit (VerifyAsync (template (jwt_token req)) (secret jwt_config))
                  (case verifyAsync env (template (jwt_token req)) (secret jwt_config) of
                     Inl e \<Rightarrow> (Continue (failed ''JWT Authentication Failed''), [])
                   | Inr payload \<Rightarrow> (Continue (passed (sub payload)), []))))"

text \<open>Lines 49 to 312: the body of the loop for one rule, entered when the running
  result is not valid.\<close>

definition route_rules_options :: "auth_env \<Rightarrow> database_schema \<Rightarrow> auth_type \<Rightarrow> options" where
  "route_rules_options env auth_schema ty =
     \<lparr>o_schema = auth_schema, o_fields = None,
      o_where = Some [\<lparr>column = ''auth'', operator = equals, wvalue = AuthType_value env ty\<rparr>],
      o_relations = None, o_data = None, o_id = None\<rparr>"

definition auth_rule ::
  "auth_env \<Rightarrow> request \<Rightarrow> database_schema \<Rightarrow> auth \<Rightarrow> auth_response \<Rightarrow>
     completion \<times> event list" where
  "auth_rule env req auth_schema a auth_passed =
     (case a_type a of
        None \<Rightarrow>
          (Continue (failed ''System configuration error: Restriction type required''), [])
      | Some ty \<Rightarrow>
          emit (Perform FIND_MANY (route_rules_options env auth_schema ty) None)
            (case perform_FIND_MANY env (route_rules_options env auth_schema ty) of
               Inl e \<Rightarrow> (Throw e, [])
             | Inr rules_data \<Rightarrow>
                 (if \<not> check_required (originalUrl req) rules_data
                  then (Continue auth_passed, [])
                  else emit (GetSchema (t_name (a_table a)))
                    (case getSchema env (t_name (a_table a)) of
                       Inl e \<Rightarrow>
                         (Return (failed
                            (''No Schema Found For Table '' @ t_name (a_table a))), [])
                     | Inr schema \<Rightarrow>
                         (let identity_column =
                                (if truthy_str (t_identity_column (a_table a))
                                 then t_identity_column (a_table a)
                                 else primary_key schema)
                          in case ty of
                               APIKEY \<Rightarrow> api_key env req schema identity_column a auth_passed
                             | JWT \<Rightarrow> jwt_auth env req)))))"

text \<open>Lines 46 to 313: the loop. A rule met while the running result is valid is passed
  over (line 47).\<close>

fun auth_loop ::
  "auth_env \<Rightarrow> request \<Rightarrow> database_schema \<Rightarrow> auth list \<Rightarrow> auth_response \<Rightarrow>
     completion \<times> event list" where
  "auth_loop env req auth_schema [] auth_passed = (Continue auth_passed, [])"
| "auth_loop env req auth_schema (a # rest) auth_passed =
     (if valid auth_passed then auth_loop env req auth_schema rest auth_passed
      else (case auth_rule env req auth_schema a auth_passed of
              (Continue auth_passed', tr) \<Rightarrow>
                (case auth_loop env req auth_schema rest auth_passed' of
                   (r, tr') \<Rightarrow> (r, tr @ tr'))
            | (Return r, tr) \<Rightarrow> (Return r, tr)
            | (Throw e, tr) \<Rightarrow> (Throw e, tr)))"

text \<open>Lines 30 to 316. The result is \<open>Inr\<close> of the response, or \<open>Inl\<close> of the message of
  the exception that rejects the promise.\<close>

definition auth_fn :: "auth_env \<Rightarrow> request \<Rightarrow> (string + auth_response) \<times> event list" where
  "auth_fn env req =
     (case authentications env of
        None \<Rightarrow> (Inr (passed Undefined), [])
      | Some rules \<Rightarrow>
          emit (GetSchema (LLANA_AUTH_TABLE env))
            (case getSchema env (LLANA_AUTH_TABLE env) of
               Inl e \<Rightarrow> (Inl e, [])
             | Inr auth_schema \<Rightarrow>
                 (case auth_loop env req auth_schema rules (failed ''Unauthorized'') of
                    (Continue auth_passed, tr) \<Rightarrow> (Inr auth_passed, tr)
                  | (Return r, tr) \<Rightarrow> (Inr r, tr)
                  | (Throw e, tr) \<Rightarrow> (Inl e, tr))))"

section \<open>PutController.updateById\<close>

text \<open>
  The controller's collaborators are injected through its constructor and are parameters
  here: the schema service (\<open>getSchema\<close>, \<open>validateData\<close>, \<open>getPrimaryKey\<close>), the
  authentication service, the role service and the query engine, with the helper
  \<open>UrlToTable\<close>. \<open>getSchema\<close> and \<open>perform\<close> may throw, and so may \<open>auth\<close>, which
  calls both. The handler hands \<open>auth\<close> the object \<open>{ req, x_request_id }\<close> and
  \<open>getSchema\<close> the object \<open>{ table, x_request_id }\<close>; the two properties are the two
  arguments here.
\<close>

record permission_response =
  p_valid :: bool
  p_message :: "string option"
  restriction :: "database_where option"

record validate_response =
  v_valid :: bool
  v_message :: "string option"
  v_instance :: obj

record is_unique_response =
  u_valid :: bool
  u_message :: "string option"

record put_env =
  UrlToTable :: "string \<Rightarrow> nat \<Rightarrow> string"
  schema_getSchema :: "string \<Rightarrow> string option \<Rightarrow> string + database_schema"
  authentication_auth :: "request \<Rightarrow> string option \<Rightarrow> string + auth_response"
  tablePermission ::
    "jsval \<Rightarrow> string \<Rightarrow> role_permission \<Rightarrow> string option \<Rightarrow> permission_response"
  validateData :: "database_schema \<Rightarrow> obj \<Rightarrow> validate_response"
  getPrimaryKey :: "database_schema \<Rightarrow> string option"
  perform_UNIQUE :: "options \<Rightarrow> string option \<Rightarrow> string + is_unique_response"
  perform_FIND_ONE :: "options \<Rightarrow> string option \<Rightarrow> string + obj option"
  perform_UPDATE :: "options \<Rightarrow> string option \<Rightarrow> string + obj"

text \<open>What \<open>res.status(code).send(...)\<close> sends: the code with either
  \<open>this.response.text(message)\<close> or the row the query engine returned.\<close>

datatype payload = Text "string option" | Row obj

record response =
  status :: nat
  sent :: payload

text \<open>The handler sends a response, or its promise is rejected by an exception.\<close>

datatype outcome = Sent response | Rejected string

definition send_text :: "nat \<Rightarrow> string option \<Rightarrow> outcome \<times> event list" where
  "send_text code m = (Sent \<lparr>status = code, sent = Text m\<rparr>, [])"

text \<open>\<open>Array.prototype.concat\<close> returns a new array and leaves its receiver alone.\<close>

definition concat_arrays :: "'a list \<Rightarrow> 'a list \<Rightarrow> 'a list" where
  "concat_arrays xs ys = xs @ ys"

text \<open>Lines 102 to 143: the where-clause list, the existence check and the update. The
  value of \<open>where.concat(role_where)\<close> on line 111 is not used.\<close>

definition find_and_update ::
  "put_env \<Rightarrow> database_schema \<Rightarrow> string \<Rightarrow> string \<Rightarrow> string option \<Rightarrow>
     database_where list \<Rightarrow> validate_response \<Rightarrow> outcome \<times> event list" where
  "find_and_update env schema primary_key_name ident x_request_id role_where validate =
     (let where_clauses =
            [\<lparr>column = primary_key_name, operator = equals, wvalue = JStr ident\<rparr>];
          unused =
            (if length role_where > 0 then concat_arrays where_clauses role_where else []);
          find_one_options =
            \<lparr>o_schema = schema, o_fields = None, o_where = Some where_clauses,
             o_relations = None, o_data = None, o_id = None\<rparr>;
          update_options =
            \<lparr>o_schema = schema, o_fields = None, o_where = None, o_relations = None,
             o_data = Some (v_instance validate), o_id = Some ident\<rparr>
      in emit (Perform FIND_ONE find_one_options x_request_id)
          (case perform_FIND_ONE env find_one_options x_request_id of
             Inl e \<Rightarrow> (Rejected e, [])
           | Inr None \<Rightarrow>
               send_text 400 (Some (''Record with id '' @ ident @ '' not found''))
           | Inr (Some record_found) \<Rightarrow>
               emit (Perform UPDATE update_options x_request_id)
                 (case perform_UPDATE env update_options x_request_id of
                    Inl e \<Rightarrow> send_text 400 (Some e)
                  | Inr updated \<Rightarrow> (Sent \<lparr>status = 200, sent = Row updated\<rparr>, []))))"

text \<open>Lines 70 to 100: validation of the body, the primary key, the \<open>:id\<close> parameter,
  and the uniqueness check.\<close>

definition validate_and_update ::
  "put_env \<Rightarrow> database_schema \<Rightarrow> string \<Rightarrow> obj \<Rightarrow> string \<Rightarrow> string option \<Rightarrow>
     database_where list \<Rightarrow> outcome \<times> event list" where
  "validate_and_update env schema table_name request_body ident x_request_id role_where =
     emit (ValidateData schema request_body)
       (let validate = validateData env schema request_body
        in if \<not> v_valid validate then send_text 400 (v_message validate)
           else emit (GetPrimaryKey schema)
             (if \<not> truthy_str (getPrimaryKey env schema)
              then send_text 400 (Some (''No primary key found for table '' @ table_name))
              else
                (let primary_key_name = template (getPrimaryKey env schema);
                     key_payload = [(primary_key_name, JStr ident)];
                     unique_options =
                       \<lparr>o_schema = schema, o_fields = None, o_where = None,
                        o_relations = None, o_data = Some request_body, o_id = Some ident\<rparr>
                 in emit (ValidateData schema key_payload)
                     (let validateKey = validateData env schema key_payload
                      in if \<not> v_valid validateKey then send_text 400 (v_message validateKey)
                         else emit (Perform UNIQUE unique_options x_request_id)
                           (case perform_UNIQUE env unique_options x_request_id of
                              Inl e \<Rightarrow> (Rejected e, [])
                            | Inr uniqueValidation \<Rightarrow>
                                (if \<not> u_valid uniqueValidation
                                 then send_text 400 (u_message uniqueValidation)
                                 else find_and_update env schema primary_key_name ident
                                        x_request_id role_where validate))))))"

text \<open>Lines 26 to 68: schema, authentication and the role check, then the rest.\<close>

definition updateById ::
  "put_env \<Rightarrow> request \<Rightarrow> (string \<times> string) list \<Rightarrow> string \<Rightarrow> outcome \<times> event list" where
  "updateById env req header_params ident =
     (let x_request_id = map_of header_params ''x-request-id'';
          table_name = UrlToTable env (originalUrl req) 1;
          request_body = body req
      in emit (GetSchemaFor table_name x_request_id)
          (case schema_getSchema env table_name x_request_id of
             Inl e \<Rightarrow> send_text 404 (Some e)
           | Inr schema \<Rightarrow>
               emit (Auth req x_request_id)
                 (case authentication_auth env req x_request_id of
                    Inl e \<Rightarrow> (Rejected e, [])
                  | Inr auth_result \<Rightarrow>
                      (if \<not> valid auth_result then send_text 401 (message auth_result)
                       else if truthy (user_identifier auth_result)
                       then emit (TablePermission (user_identifier auth_result) table_name
                                    WRITE x_request_id)
                         (let permission =
                                tablePermission env (user_identifier auth_result) table_name
                                  WRITE x_request_id
                          in if \<not> p_valid permission then send_text 401 (p_message permission)
                             else validate_and_update env schema table_name request_body
                                    ident x_request_id
                                    (case restriction permission of
                                       None \<Rightarrow> [] | Some r \<Rightarrow> [r]))
                       else validate_and_update env schema table_name request_body ident
                              x_request_id []))))"

section \<open>Stages of the update pipeline\<close>

datatype stage =
    SchemaResolution | Authentication | RoleAuthorization | DataValidation
  | UniquenessCheck | ExistenceCheck | Mutation




section \<open>Example configurations and requests\<close>

definition users_schema :: database_schema where
  "users_schema = \<lparr>table = ''users'', primary_key = Some ''id''\<rparr>"

definition rules_schema :: database_schema where
  "rules_schema = \<lparr>table = ''_llana_auth'', primary_key = Some ''id''\<rparr>"

definition key_rule :: auth where
  "key_rule =
     \<lparr>a_type = Some APIKEY, a_name = Some ''x-api-key'', a_location = Some HEADER,
      a_table = \<lparr>t_name = ''users'', t_column = Some ''api_key'',
                 t_identity_column = Some ''id''\<rparr>\<rparr>"

definition token_rule :: auth where
  "token_rule =
     \<lparr>a_type = Some JWT, a_name = None, a_location = None,
      a_table = \<lparr>t_name = ''users'', t_column = None, t_identity_column = None\<rparr>\<rparr>"

definition base_env :: auth_env where
  "base_env =
     \<lparr>authentications = Some [key_rule],
      soft_delete = None,
      jwt = Some \<lparr>secret = JStr ''s3cr3t''\<rparr>,
      IsTest = False,
      LLANA_AUTH_TABLE = ''_llana_auth'',
      AuthType_value = (\<lambda>ty. case ty of APIKEY \<Rightarrow> JStr ''APIKEY'' | JWT \<Rightarrow> JStr ''JWT''),
      getSchema = (\<lambda>t. if t = ''_llana_auth'' then Inr rules_schema
                        else if t = ''users'' then Inr users_schema
                        else Inl ''Table not found''),
      validateFields = (\<lambda>s c. \<lparr>vf_valid = True, vf_message = None, vf_fields = [c],
                                vf_relations = []\<rparr>),
      perform_FIND_MANY = (\<lambda>opts. Inr []),
      perform_FIND = (\<lambda>opts.
        if o_where opts = Some [\<lparr>column = ''api_key'', operator = equals,
                                  wvalue = JStr ''secret''\<rparr>]
        then Inr (Some [(''api_key'', JStr ''secret''), (''id'', JNum 7)])
        else Inr None),
      verifyAsync = (\<lambda>tok k. if tok = ''good'' \<and> k = JStr ''s3cr3t''
                             then Inr \<lparr>sub = JNum 7\<rparr> else Inl ''invalid signature''),
      findDotNotation = (\<lambda>row path. get_prop row path)\<rparr>"

definition key_request :: "string \<Rightarrow> request" where
  "key_request k =
     \<lparr>originalUrl = ''/users/42'', headers = [(''x-api-key'', k)], query = [], body = []\<rparr>"

definition key_find_options :: "string \<Rightarrow> options" where
  "key_find_options k =
     \<lparr>o_schema = users_schema, o_fields = Some [''users.id'', ''api_key''],
      o_where = Some [\<lparr>column = ''api_key'', operator = equals, wvalue = JStr k\<rparr>],
      o_relations = Some [], o_data = None, o_id = None\<rparr>"

definition excluded_env :: auth_env where
  "excluded_env =
     base_env\<lparr>authentications := Some [key_rule, token_rule],
       perform_FIND_MANY := (\<lambda>opts.
         if o_where opts = Some [\<lparr>column = ''auth'', operator = equals,
                                   wvalue = JStr ''APIKEY''\<rparr>]
         then Inr [\<lparr>exclude = JBool True, rr_table = ''users''\<rparr>]
         else Inr [])\<rparr>"

definition token_request :: "string \<Rightarrow> string \<Rightarrow> request" where
  "token_request k tok =
     \<lparr>originalUrl = ''/users/42'',
      headers = [(''x-api-key'', k), (''authorization'', ''Bearer '' @ tok)],
      query = [], body = []\<rparr>"

definition two_rule_env :: auth_env where
  "two_rule_env = base_env\<lparr>authentications := Some [key_rule, token_rule]\<rparr>"

definition test_env :: auth_env where
  "test_env = base_env\<lparr>IsTest := True\<rparr>"

text \<open>Rules whose lookup table \<open>ghost\<close> has no schema.\<close>

definition ghost_rule :: auth where
  "ghost_rule =
     \<lparr>a_type = Some JWT, a_name = None, a_location = None,
      a_table = \<lparr>t_name = ''ghost'', t_column = None, t_identity_column = None\<rparr>\<rparr>"

definition ghost_key_rule :: auth where
  "ghost_key_rule =
     \<lparr>a_type = Some APIKEY, a_name = Some ''x-api-key'', a_location = Some HEADER,
      a_table = \<lparr>t_name = ''ghost'', t_column = Some ''api_key'',
                 t_identity_column = Some ''id''\<rparr>\<rparr>"

text \<open>For the controller: a query engine over one stored row, which answers \<open>FIND_ONE\<close>
  with the first row that satisfies every clause it is given.\<close>

definition owner_restriction :: database_where where
  "owner_restriction = \<lparr>column = ''owner_id'', operator = equals, wvalue = JNum 7\<rparr>"

definition stored_rows :: "obj list" where
  "stored_rows =
     [[(''id'', JStr ''42''), (''owner_id'', JNum 9), (''email'', JStr ''old@b.com'')]]"

definition clause_holds :: "obj \<Rightarrow> database_where \<Rightarrow> bool" where
  "clause_holds row w =
     (case operator w of
        equals \<Rightarrow> get_prop row (column w) = wvalue w
      | null_operator \<Rightarrow> get_prop row (column w) = Null)"

definition select_one :: "obj list \<Rightarrow> options \<Rightarrow> obj option" where
  "select_one rows opts =
     find (\<lambda>row. list_all (clause_holds row)
                   (case o_where opts of None \<Rightarrow> [] | Some ws \<Rightarrow> ws)) rows"

definition put_services :: put_env where
  "put_services =
     \<lparr>UrlToTable = (\<lambda>url n. ''users''),
      schema_getSchema = (\<lambda>t x. if t = ''users'' then Inr users_schema
                                 else Inl ''Table not found''),
      authentication_auth = (\<lambda>req x. Inr (passed (JNum 7))),
      tablePermission = (\<lambda>uid t access x.
        \<lparr>p_valid = True, p_message = None, restriction = Some owner_restriction\<rparr>),
      validateData = (\<lambda>s d. \<lparr>v_valid = True, v_message = None, v_instance = d\<rparr>),
      getPrimaryKey = primary_key,
      perform_UNIQUE = (\<lambda>opts x. Inr \<lparr>u_valid = True, u_message = None\<rparr>),
      perform_FIND_ONE = (\<lambda>opts x. Inr (select_one stored_rows opts)),
      perform_UPDATE = (\<lambda>opts x.
        case o_data opts of
          None \<Rightarrow> Inl ''No data''
        | Some d \<Rightarrow> Inr ((''id'', JStr ''42'') # d))\<rparr>"

definition put_request :: request where
  "put_request =
     \<lparr>originalUrl = ''/users/42'', headers = [(''x-request-id'', ''r1'')], query = [],
      body = [(''email'', JStr ''a@b.com'')]\<rparr>"

definition unique_options :: "string \<Rightarrow> options" where
  "unique_options ident =
     \<lparr>o_schema = users_schema, o_fields = None, o_where = None, o_relations = None,
      o_data = Some [(''email'', JStr ''a@b.com'')], o_id = Some ident\<rparr>"

definition exists_options :: "string \<Rightarrow> options" where
  "exists_options ident =
     \<lparr>o_schema = users_schema, o_fields = None,
      o_where = Some [\<lparr>column = ''id'', operator = equals, wvalue = JStr ident\<rparr>],
      o_relations = None, o_data = None, o_id = None\<rparr>"

text \<open>The same services over a table whose schema has no primary key.\<close>

definition keyless_schema :: database_schema where
  "keyless_schema = \<lparr>table = ''users'', primary_key = None\<rparr>"

definition no_key_services :: put_env where
  "no_key_services = put_services\<lparr>schema_getSchema := (\<lambda>t x. Inr keyless_schema)\<rparr>"

definition no_key_unauthenticated :: put_env where
  "no_key_unauthenticated =
     no_key_services\<lparr>authentication_auth := (\<lambda>req x. Inr (failed ''Unauthorized''))\<rparr>"


section \<open>Auxiliary facts\<close>

lemma emit_pair [simp]: "emit ev (x, tr) = (x, ev # tr)"
  by (simp add: emit_def)

lemma emit_eq_iff: "(emit ev r = (out, tr)) = (\<exists>tr'. r = (out, tr') \<and> tr = ev # tr')"
  by (cases r) auto

lemma foldl_set_False:
  "foldl (\<lambda>required x. if P x then False else required) c xs = (c \<and> \<not> list_ex P xs)"
  by (induction xs arbitrary: c) auto

lemma foldl_set_True:
  "foldl (\<lambda>required x. if P x then True else required) c xs = (c \<or> list_ex P xs)"
  by (induction xs arbitrary: c) auto

lemma check_required_always: "check_required url rules_data"
  unfolding check_required_def Let_def foldl_set_False foldl_set_True by blast

lemma auth_loop_valid:
  "valid auth_passed \<Longrightarrow> auth_loop env req auth_schema rules auth_passed = (Continue auth_passed, [])"
  by (induction rules) auto

lemma api_key_lookup_Return_invalid:
  "api_key_lookup env schema ic a col k ap = (Return r, tr) \<Longrightarrow> \<not> valid r"
  by (auto simp: api_key_lookup_def Let_def emit_eq_iff failed_def split: sum.splits option.splits if_splits)

lemma api_key_Return_invalid:
  "api_key env req schema ic a ap = (Return r, tr) \<Longrightarrow> \<not> valid r"
  by (auto simp: api_key_def dest: api_key_lookup_Return_invalid split: sum.splits option.splits if_splits)

lemma jwt_auth_Continue: "\<exists>r tr. jwt_auth env req = (Continue r, tr)"
  by (auto simp: jwt_auth_def split: sum.splits option.splits)

lemma auth_rule_Return_invalid:
  "auth_rule env req s a ap = (Return r, tr) \<Longrightarrow> \<not> valid r"
  using jwt_auth_Continue[of env req]
  by (auto simp: auth_rule_def Let_def emit_eq_iff failed_def dest: api_key_Return_invalid
      split: sum.splits option.splits if_splits auth_type.splits)

lemma auth_loop_Return_invalid:
  "auth_loop env req s rules ap = (Return r, tr) \<Longrightarrow> \<not> valid r"
proof (induction rules arbitrary: ap tr)
  case Nil
  then show ?case by simp
next
  case (Cons a rest)
  then show ?case
    by (auto split: if_splits prod.splits completion.splits dest: auth_rule_Return_invalid)
qed

lemma auth_loop_append:
  "auth_loop env req s (pre @ post) ap =
     (case auth_loop env req s pre ap of
        (Continue ap', tr) \<Rightarrow> (case auth_loop env req s post ap' of (r, tr') \<Rightarrow> (r, tr @ tr'))
      | (Return r, tr) \<Rightarrow> (Return r, tr)
      | (Throw e, tr) \<Rightarrow> (Throw e, tr))"
proof (induction pre arbitrary: ap)
  case Nil
  then show ?case by (simp split: prod.splits)
next
  case (Cons a pre)
  then show ?case
    by (auto split: prod.splits completion.splits)
qed


lemmas example_defs = users_schema_def rules_schema_def key_rule_def token_rule_def
  base_env_def key_request_def key_find_options_def
  token_request_def

lemmas auth_defs = auth_fn_def auth_rule_def api_key_def api_key_lookup_def jwt_auth_def
  jwt_token_def key_mismatch_def request_key_def header_def route_rules_options_def
  push_fields_def push_relations_def failed_def passed_def truthy_str_def template_def
  get_prop_def check_required_def Let_def

lemma api_key_authentications:
  "api_key (env\<lparr>authentications := x\<rparr>) req schema ic a ap = api_key env req schema ic a ap"
  by (simp add: api_key_def api_key_lookup_def key_mismatch_def Let_def
      split: option.splits sum.splits)

lemma jwt_auth_authentications: "jwt_auth (env\<lparr>authentications := x\<rparr>) req = jwt_auth env req"
  by (simp add: jwt_auth_def split: option.splits sum.splits)

lemma auth_rule_authentications:
  "auth_rule (env\<lparr>authentications := x\<rparr>) req s a ap = auth_rule env req s a ap"
  by (simp add: auth_rule_def route_rules_options_def api_key_authentications
      jwt_auth_authentications Let_def split: option.splits sum.splits auth_type.splits)

lemma auth_loop_authentications:
  "auth_loop (env\<lparr>authentications := x\<rparr>) req s rules ap = auth_loop env req s rules ap"
  by (induction rules arbitrary: ap)
    (simp_all add: auth_rule_authentications split: prod.splits completion.splits)

lemma api_key_lookup_no_record:
  assumes "api_key_lookup env schema ic a col k ap = (c, tr)"
    and "Perform FIND opts x \<in> set tr" and "perform_FIND env opts = Inr None"
  shows "c = Return (failed ''Unauthorized'')"
  using assms
  by (auto simp: api_key_lookup_def Let_def emit_eq_iff key_mismatch_def
      split: sum.splits option.splits if_splits)

lemma api_key_no_record:
  assumes "api_key env req schema ic a ap = (c, tr)"
    and "Perform FIND opts x \<in> set tr" and "perform_FIND env opts = Inr None"
  shows "c = Return (failed ''Unauthorized'')"
  using assms
  by (auto simp: api_key_def dest: api_key_lookup_no_record
      split: sum.splits option.splits if_splits)

lemma jwt_auth_no_FIND: "jwt_auth env req = (c, tr) \<Longrightarrow> Perform FIND opts x \<notin> set tr"
  by (auto simp: jwt_auth_def emit_eq_iff split: sum.splits option.splits if_splits)

lemma auth_rule_no_record:
  assumes "auth_rule env req s a ap = (c, tr)"
    and "Perform FIND opts x \<in> set tr" and "perform_FIND env opts = Inr None"
  shows "c = Return (failed ''Unauthorized'')"
  using assms
  by (auto simp: auth_rule_def Let_def emit_eq_iff
      dest: api_key_no_record jwt_auth_no_FIND
      split: sum.splits option.splits if_splits auth_type.splits)

text \<open>A key that the fetched row holds directly is never accepted: the left operand of the
  comparison is then the boolean \<open>false\<close>.\<close>

lemma key_mismatch_direct:
  "truthy (get_prop row col) \<Longrightarrow> truthy k \<Longrightarrow> key_mismatch env (Some row) col k"
  by (cases k) (auto simp: key_mismatch_def)

lemmas put_example_defs = owner_restriction_def stored_rows_def clause_holds_def
  select_one_def put_services_def put_request_def unique_options_def exists_options_def
  users_schema_def

lemmas put_defs = updateById_def validate_and_update_def find_and_update_def send_text_def
  concat_arrays_def Let_def

lemma find_and_update_no_record:
  assumes "find_and_update env schema pk ident x role_where v = (out, tr)"
    and "Perform FIND_ONE opts y \<in> set tr" and "perform_FIND_ONE env opts y = Inr None"
  shows "out = Sent \<lparr>status = 400,
                     sent = Text (Some (''Record with id '' @ ident @ '' not found''))\<rparr>
         \<and> (\<forall>opts' y'. Perform UPDATE opts' y' \<notin> set tr)"
  using assms
  by (auto simp: find_and_update_def send_text_def Let_def emit_eq_iff
      split: sum.splits option.splits)

lemma validate_and_update_no_record:
  assumes "validate_and_update env schema t b ident x role_where = (out, tr)"
    and "Perform FIND_ONE opts y \<in> set tr" and "perform_FIND_ONE env opts y = Inr None"
  shows "out = Sent \<lparr>status = 400,
                     sent = Text (Some (''Record with id '' @ ident @ '' not found''))\<rparr>
         \<and> (\<forall>opts' y'. Perform UPDATE opts' y' \<notin> set tr)"
  using assms
  by (auto simp: validate_and_update_def send_text_def Let_def emit_eq_iff
      dest!: find_and_update_no_record
      split: sum.splits option.splits if_splits)

text \<open>The existence check is always asked for the primary-key clause alone.\<close>

lemma existence_check_where:
  assumes "updateById env req header_params ident = (out, tr)"
    and "Perform FIND_ONE opts y \<in> set tr"
  shows "\<exists>pk. o_where opts = Some [\<lparr>column = pk, operator = equals, wvalue = JStr ident\<rparr>]"
  using assms
  by (auto simp: put_defs emit_eq_iff split: sum.splits option.splits if_splits)

section \<open>The claims\<close>

subsection \<open>C1: the role restriction and the existence check\<close>

text \<open>
  Claim C1 says that a restriction returned by \<open>tablePermission\<close> appears, next to the
  primary-key filter, in the where-clause list of the existence check. The handler calls
  \<open>where.concat(role_where)\<close> and drops the result. Here the caller 7 is restricted to
  rows with \<open>owner_id = 7\<close>, row 42 belongs to owner 9, and the query engine finds no row
  for both clauses together; the existence check is asked for \<open>id = 42\<close> alone, finds the
  row, and the update is performed.
\<close>

theorem restriction_dropped:
  "restriction (tablePermission put_services (JNum 7) ''users'' WRITE (Some ''r1'')) =
     Some owner_restriction
   \<and> select_one stored_rows
       ((exists_options ''42'')\<lparr>o_where :=
          Some [\<lparr>column = ''id'', operator = equals, wvalue = JStr ''42''\<rparr>,
                owner_restriction]\<rparr>) = None
   \<and> updateById put_services put_request [(''x-request-id'', ''r1'')] ''42'' =
     (Sent \<lparr>status = 200, sent = Row [(''id'', JStr ''42''), (''email'', JStr ''a@b.com'')]\<rparr>,
      [GetSchemaFor ''users'' (Some ''r1''),
       Auth put_request (Some ''r1''),
       TablePermission (JNum 7) ''users'' WRITE (Some ''r1''),
       ValidateData users_schema [(''email'', JStr ''a@b.com'')],
       GetPrimaryKey users_schema,
       ValidateData users_schema [(''id'', JStr ''42'')],
       Perform UNIQUE (unique_options ''42'') (Some ''r1''),
       Perform FIND_ONE (exists_options ''42'') (Some ''r1''),
       Perform UPDATE (unique_options ''42'') (Some ''r1'')])"
  by (simp add: put_example_defs put_defs emit_def truthy_str_def template_def passed_def
      get_prop_def)

subsection \<open>C2: comparing the API key\<close>

text \<open>
  Claim C2 says that an API-key rule passes exactly when the matching column of the
  fetched record equals the supplied key. Here the lookup returns a row whose column
  \<open>api_key\<close> is the supplied key \<open>secret\<close> and whose identity column is 7, and \<open>auth\<close>
  answers \<open>Unauthorized\<close>.
\<close>

theorem api_key_exact_match_rejected:
  "perform_FIND base_env (key_find_options ''secret'') =
     Inr (Some [(''api_key'', JStr ''secret''), (''id'', JNum 7)])
   \<and> get_prop [(''api_key'', JStr ''secret''), (''id'', JNum 7)] ''api_key'' = JStr ''secret''
   \<and> auth_fn base_env (key_request ''secret'') =
     (Inr (failed ''Unauthorized''),
      [GetSchema ''_llana_auth'',
       Perform FIND_MANY (route_rules_options base_env rules_schema APIKEY) None,
       GetSchema ''users'',
       ValidateFields users_schema ''api_key'',
       Perform FIND (key_find_options ''secret'') None])"
  by (simp add: example_defs auth_defs)

subsection \<open>C3: rules excluded on a route\<close>

text \<open>
  Claim C3 says that a rule with an exclude entry matching the route is skipped unless an
  include entry overrides it. The handler builds its include list with the same filter as
  its exclude list, so every exclusion is overridden. Here the API-key rule is excluded on
  \<open>users\<close>, no include entry exists, the request carries a wrong key and a good token;
  the API-key rule is enforced and ends the run before the token rule is looked at.
\<close>

theorem excluded_rule_enforced:
  "perform_FIND_MANY excluded_env (route_rules_options excluded_env rules_schema APIKEY) =
     Inr [\<lparr>exclude = JBool True, rr_table = ''users''\<rparr>]
   \<and> str_includes (originalUrl (token_request ''wrong'' ''good'')) ''users''
   \<and> auth_fn excluded_env (token_request ''wrong'' ''good'') =
     (Inr (failed ''Unauthorized''),
      [GetSchema ''_llana_auth'',
       Perform FIND_MANY (route_rules_options excluded_env rules_schema APIKEY) None,
       GetSchema ''users'',
       ValidateFields users_schema ''api_key'',
       Perform FIND (key_find_options ''wrong'') None])"
  by (simp add: excluded_env_def example_defs auth_defs)

subsection \<open>C4: a missing record is never updated\<close>

text \<open>
  Claim C4: in the update-by-id flow, when the existence check (\<open>FIND_ONE\<close>) returns no
  record, the handler answers with the client error \<open>Record with id ... not found\<close> and
  no \<open>UPDATE\<close> is submitted to the query engine.
\<close>

theorem missing_record_never_updated:
  assumes "updateById env req header_params ident = (out, tr)"
    and "Perform FIND_ONE opts y \<in> set tr"
    and "perform_FIND_ONE env opts y = Inr None"
  shows "out = Sent \<lparr>status = 400,
                     sent = Text (Some (''Record with id '' @ ident @ '' not found''))\<rparr>
         \<and> (\<forall>opts' y'. Perform UPDATE opts' y' \<notin> set tr)"
  using assms
  by (auto simp: updateById_def send_text_def Let_def emit_eq_iff
      dest!: validate_and_update_no_record
      split: sum.splits option.splits if_splits)

text \<open>Witness for C4: the request for id 43, which is not stored.\<close>

theorem missing_record_never_updated_witness:
  "updateById put_services put_request [(''x-request-id'', ''r1'')] ''43'' =
     (Sent \<lparr>status = 400, sent = Text (Some ''Record with id 43 not found'')\<rparr>,
      [GetSchemaFor ''users'' (Some ''r1''),
       Auth put_request (Some ''r1''),
       TablePermission (JNum 7) ''users'' WRITE (Some ''r1''),
       ValidateData users_schema [(''email'', JStr ''a@b.com'')],
       GetPrimaryKey users_schema,
       ValidateData users_schema [(''id'', JStr ''43'')],
       Perform UNIQUE (unique_options ''43'') (Some ''r1''),
       Perform FIND_ONE (exists_options ''43'') (Some ''r1'')])
   \<and> perform_FIND_ONE put_services (exists_options ''43'') (Some ''r1'') = Inr None
   \<and> Perform UPDATE (unique_options ''43'') (Some ''r1'') \<notin>
       set (snd (updateById put_services put_request [(''x-request-id'', ''r1'')] ''43''))"
proof -
  let ?tr = "[GetSchemaFor ''users'' (Some ''r1''),
       Auth put_request (Some ''r1''),
       TablePermission (JNum 7) ''users'' WRITE (Some ''r1''),
       ValidateData users_schema [(''email'', JStr ''a@b.com'')],
       GetPrimaryKey users_schema,
       ValidateData users_schema [(''id'', JStr ''43'')],
       Perform UNIQUE (unique_options ''43'') (Some ''r1''),
       Perform FIND_ONE (exists_options ''43'') (Some ''r1'')]"
  have run: "updateById put_services put_request [(''x-request-id'', ''r1'')] ''43'' =
     (Sent \<lparr>status = 400, sent = Text (Some ''Record with id 43 not found'')\<rparr>, ?tr)"
    by (simp add: put_example_defs put_defs emit_def truthy_str_def template_def passed_def
        get_prop_def)
  have asked: "Perform FIND_ONE (exists_options ''43'') (Some ''r1'') \<in> set ?tr"
    by simp
  have absent: "perform_FIND_ONE put_services (exists_options ''43'') (Some ''r1'') = Inr None"
    by (simp add: put_example_defs get_prop_def)
  from missing_record_never_updated [OF run asked absent] run absent
  show ?thesis by simp
qed

subsection \<open>C5: nothing is evaluated after a passing rule\<close>

text \<open>
  Claim C5: for every ordered list of rules, once an earlier rule has produced a valid
  result no later rule is evaluated. When \<open>auth\<close> on the rules \<open>pre\<close> ends with a valid
  result, \<open>auth\<close> on \<open>pre\<close> followed by any further rules \<open>post\<close> gives the same result
  with the same calls: the rules of \<open>post\<close> add no lookup and no token verification.
\<close>

theorem later_rules_not_evaluated:
  assumes "auth_fn (env\<lparr>authentications := Some pre\<rparr>) req = (Inr r, tr)"
    and "valid r"
  shows "auth_fn (env\<lparr>authentications := Some (pre @ post)\<rparr>) req = (Inr r, tr)"
proof (cases "getSchema env (LLANA_AUTH_TABLE env)")
  case (Inl e)
  with assms(1) show ?thesis by (simp add: auth_fn_def)
next
  case (Inr auth_schema)
  obtain c tr0 where run: "auth_loop env req auth_schema pre (failed ''Unauthorized'') = (c, tr0)"
    by (cases "auth_loop env req auth_schema pre (failed ''Unauthorized'')") blast
  from assms(1) Inr run have c: "c = Continue r \<or> c = Return r"
    and tr: "tr = GetSchema (LLANA_AUTH_TABLE env) # tr0"
    by (auto simp: auth_fn_def auth_loop_authentications split: completion.splits)
  from assms(2) run auth_loop_Return_invalid[of env req auth_schema pre _ r tr0] c
  have "c = Continue r" by auto
  with run assms(2) have
    "auth_loop env req auth_schema (pre @ post) (failed ''Unauthorized'') = (Continue r, tr0)"
    by (simp add: auth_loop_append auth_loop_valid)
  with Inr tr show ?thesis
    by (simp add: auth_fn_def auth_loop_authentications)
qed

text \<open>Witness for C5: a token rule that passes, followed by an API-key rule whose key
  is wrong.\<close>

theorem later_rules_not_evaluated_witness:
  "auth_fn (base_env\<lparr>authentications := Some [token_rule]\<rparr>) (token_request ''wrong'' ''good'') =
     (Inr (passed (JNum 7)),
      [GetSchema ''_llana_auth'',
       Perform FIND_MANY (route_rules_options base_env rules_schema JWT) None,
       GetSchema ''users'',
       VerifyAsync ''good'' (JStr ''s3cr3t'')])
   \<and> valid (passed (JNum 7))
   \<and> auth_fn (base_env\<lparr>authentications := Some [token_rule, key_rule]\<rparr>)
       (token_request ''wrong'' ''good'') =
     (Inr (passed (JNum 7)),
      [GetSchema ''_llana_auth'',
       Perform FIND_MANY (route_rules_options base_env rules_schema JWT) None,
       GetSchema ''users'',
       VerifyAsync ''good'' (JStr ''s3cr3t'')])"
proof -
  have run: "auth_fn (base_env\<lparr>authentications := Some [token_rule]\<rparr>)
       (token_request ''wrong'' ''good'') =
     (Inr (passed (JNum 7)),
      [GetSchema ''_llana_auth'',
       Perform FIND_MANY (route_rules_options base_env rules_schema JWT) None,
       GetSchema ''users'',
       VerifyAsync ''good'' (JStr ''s3cr3t'')])"
    by (simp add: example_defs auth_defs)
  have ok: "valid (passed (JNum 7))"
    by (simp add: passed_def)
  from later_rules_not_evaluated [OF run ok, of "[key_rule]"] run ok
  show ?thesis by simp
qed

subsection \<open>C6: no record for the API key ends the run\<close>

text \<open>
  Claim C6: when the lookup of an API-key rule finds no record, \<open>auth\<close> returns at once
  with the invalid result \<open>Unauthorized\<close>, and no later rule is evaluated. The rule \<open>a\<close>
  is reached with the running result \<open>ap\<close> still invalid after the rules \<open>pre\<close>; its
  calls \<open>tr2\<close> contain a \<open>FIND\<close> that the query engine answers with no record. Then the
  rule returns, and the calls of \<open>auth\<close> end with those of \<open>a\<close>, whatever rules follow.
\<close>

theorem api_key_no_record_short_circuits:
  assumes "authentications env = Some (pre @ a # post)"
    and "getSchema env (LLANA_AUTH_TABLE env) = Inr auth_schema"
    and "auth_loop env req auth_schema pre (failed ''Unauthorized'') = (Continue ap, tr1)"
    and "\<not> valid ap"
    and "auth_rule env req auth_schema a ap = (c, tr2)"
    and "Perform FIND opts x \<in> set tr2"
    and "perform_FIND env opts = Inr None"
  shows "c = Return (failed ''Unauthorized'') \<and>
         auth_fn env req =
           (Inr (failed ''Unauthorized''), GetSchema (LLANA_AUTH_TABLE env) # tr1 @ tr2)"
proof -
  from assms(5-7) have c: "c = Return (failed ''Unauthorized'')"
    by (rule auth_rule_no_record)
  with assms(3-5) have
    "auth_loop env req auth_schema (pre @ a # post) (failed ''Unauthorized'') =
       (Return (failed ''Unauthorized''), tr1 @ tr2)"
    by (simp add: auth_loop_append)
  with assms(1,2) c show ?thesis by (simp add: auth_fn_def)
qed

text \<open>Witness for C6: an API-key rule with an unknown key, followed by a token rule with
  a good token.\<close>

theorem api_key_no_record_short_circuits_witness:
  "authentications two_rule_env = Some ([] @ key_rule # [token_rule])
   \<and> getSchema two_rule_env (LLANA_AUTH_TABLE two_rule_env) = Inr rules_schema
   \<and> \<not> valid (failed ''Unauthorized'')
   \<and> auth_rule two_rule_env (token_request ''wrong'' ''good'') rules_schema key_rule
       (failed ''Unauthorized'') =
     (Return (failed ''Unauthorized''),
      [Perform FIND_MANY (route_rules_options two_rule_env rules_schema APIKEY) None,
       GetSchema ''users'',
       ValidateFields users_schema ''api_key'',
       Perform FIND (key_find_options ''wrong'') None])
   \<and> perform_FIND two_rule_env (key_find_options ''wrong'') = Inr None
   \<and> auth_fn two_rule_env (token_request ''wrong'' ''good'') =
     (Inr (failed ''Unauthorized''),
      [GetSchema ''_llana_auth'',
       Perform FIND_MANY (route_rules_options two_rule_env rules_schema APIKEY) None,
       GetSchema ''users'',
       ValidateFields users_schema ''api_key'',
       Perform FIND (key_find_options ''wrong'') None])"
proof -
  let ?tr2 = "[Perform FIND_MANY (route_rules_options two_rule_env rules_schema APIKEY) None,
       GetSchema ''users'',
       ValidateFields users_schema ''api_key'',
       Perform FIND (key_find_options ''wrong'') None]"
  have rules: "authentications two_rule_env = Some ([] @ key_rule # [token_rule])"
    by (simp add: two_rule_env_def)
  have schema: "getSchema two_rule_env (LLANA_AUTH_TABLE two_rule_env) = Inr rules_schema"
    by (simp add: two_rule_env_def example_defs)
  have before: "auth_loop two_rule_env (token_request ''wrong'' ''good'') rules_schema []
       (failed ''Unauthorized'') = (Continue (failed ''Unauthorized''), [])"
    by simp
  have invalid: "\<not> valid (failed ''Unauthorized'')"
    by (simp add: failed_def)
  have rule: "auth_rule two_rule_env (token_request ''wrong'' ''good'') rules_schema key_rule
       (failed ''Unauthorized'') = (Return (failed ''Unauthorized''), ?tr2)"
    by (simp add: two_rule_env_def example_defs auth_defs)
  have asked: "Perform FIND (key_find_options ''wrong'') None \<in> set ?tr2"
    by simp
  have absent: "perform_FIND two_rule_env (key_find_options ''wrong'') = Inr None"
    by (simp add: two_rule_env_def example_defs)
  from api_key_no_record_short_circuits [OF rules schema before invalid rule asked absent]
    rules schema invalid rule absent
  show ?thesis by (simp add: two_rule_env_def base_env_def)
qed

subsection \<open>C7: a failed token does not end the run\<close>

text \<open>
  Claim C7 says that for every applicable token rule an absent token or a failed
  verification is recorded and the next rule is evaluated. A token rule is first asked for
  the schema of its table, and when there is none \<open>auth\<close> returns at once. Here the token
  rule names the table \<open>ghost\<close>, the request has no token, and the API-key rule that
  follows (which would pass in the test environment) is never evaluated.
\<close>

theorem token_rule_without_schema_halts:
  "a_type ghost_rule = Some JWT
   \<and> check_required (originalUrl (key_request ''secret'')) []
   \<and> jwt_token (key_request ''secret'') = None
   \<and> auth_fn (test_env\<lparr>authentications := Some [ghost_rule, key_rule]\<rparr>)
       (key_request ''secret'') =
     (Inr (failed ''No Schema Found For Table ghost''),
      [GetSchema ''_llana_auth'',
       Perform FIND_MANY (route_rules_options test_env rules_schema JWT) None,
       GetSchema ''ghost''])"
  by (simp add: ghost_rule_def test_env_def example_defs auth_defs)

text \<open>
  Claim C7 as amended: for every token rule whose route rules are read and whose table
  has a schema, an absent token records the failed result \<open>JWT token required\<close>, and a
  failed verification (the token service rejects the token, or no \<open>jwt\<close> configuration
  exists) records the failed result \<open>JWT Authentication Failed\<close>; in both cases the loop
  goes on with the rules that follow, whose calls come after those of the token rule, so
  that a later rule can still pass.
\<close>

theorem token_failure_continues:
  assumes "a_type a = Some JWT"
    and "perform_FIND_MANY env (route_rules_options env auth_schema JWT) = Inr rules_data"
    and "getSchema env (t_name (a_table a)) = Inr schema"
    and "\<not> valid ap"
    and "\<not> truthy_str (jwt_token req) \<or> jwt env = None \<or>
         (jwt env = Some cfg \<and> verifyAsync env (template (jwt_token req)) (secret cfg) = Inl e)"
  shows "fst (auth_rule env req auth_schema a ap) =
           Continue (failed (if truthy_str (jwt_token req) then ''JWT Authentication Failed''
                             else ''JWT token required''))
         \<and> auth_loop env req auth_schema (a # rest) ap =
           (case auth_loop env req auth_schema rest
                   (failed (if truthy_str (jwt_token req) then ''JWT Authentication Failed''
                            else ''JWT token required'')) of
              (c, tr') \<Rightarrow> (c, snd (auth_rule env req auth_schema a ap) @ tr'))"
  using assms
  by (auto simp: auth_rule_def jwt_auth_def check_required_always Let_def
      split: option.splits sum.splits)

text \<open>Witness for C7, in the test environment with a token rule followed by an API-key
  rule: once with a token that the token service rejects, once with no token. Both times
  the API-key rule is evaluated next and passes.\<close>

theorem token_failure_continues_witness:
  "a_type token_rule = Some JWT
   \<and> perform_FIND_MANY test_env (route_rules_options test_env rules_schema JWT) = Inr []
   \<and> getSchema test_env (t_name (a_table token_rule)) = Inr users_schema
   \<and> \<not> valid (failed ''Unauthorized'')
   \<and> jwt test_env = Some \<lparr>secret = JStr ''s3cr3t''\<rparr>
   \<and> verifyAsync test_env (template (jwt_token (token_request ''secret'' ''bad'')))
       (JStr ''s3cr3t'') = Inl ''invalid signature''
   \<and> fst (auth_rule test_env (token_request ''secret'' ''bad'') rules_schema token_rule
            (failed ''Unauthorized'')) = Continue (failed ''JWT Authentication Failed'')
   \<and> auth_loop test_env (token_request ''secret'' ''bad'') rules_schema [token_rule, key_rule]
       (failed ''Unauthorized'') =
     (Continue (passed Undefined),
      [Perform FIND_MANY (route_rules_options test_env rules_schema JWT) None,
       GetSchema ''users'',
       VerifyAsync ''bad'' (JStr ''s3cr3t''),
       Perform FIND_MANY (route_rules_options test_env rules_schema APIKEY) None,
       GetSchema ''users''])
   \<and> \<not> truthy_str (jwt_token (key_request ''secret''))
   \<and> fst (auth_rule test_env (key_request ''secret'') rules_schema token_rule
            (failed ''Unauthorized'')) = Continue (failed ''JWT token required'')
   \<and> auth_loop test_env (key_request ''secret'') rules_schema [token_rule, key_rule]
       (failed ''Unauthorized'') =
     (Continue (passed Undefined),
      [Perform FIND_MANY (route_rules_options test_env rules_schema JWT) None,
       GetSchema ''users'',
       Perform FIND_MANY (route_rules_options test_env rules_schema APIKEY) None,
       GetSchema ''users''])"
proof -
  have ty: "a_type token_rule = Some JWT"
    by (simp add: token_rule_def)
  have rules: "perform_FIND_MANY test_env (route_rules_options test_env rules_schema JWT) =
      Inr []"
    by (simp add: test_env_def base_env_def)
  have schema: "getSchema test_env (t_name (a_table token_rule)) = Inr users_schema"
    by (simp add: test_env_def example_defs)
  have invalid: "\<not> valid (failed ''Unauthorized'')"
    by (simp add: failed_def)
  have cfg: "jwt test_env = Some \<lparr>secret = JStr ''s3cr3t''\<rparr>"
    by (simp add: test_env_def base_env_def)
  have rejected: "verifyAsync test_env (template (jwt_token (token_request ''secret'' ''bad'')))
       (secret \<lparr>secret = JStr ''s3cr3t''\<rparr>) = Inl ''invalid signature''"
    by (simp add: test_env_def example_defs jwt_token_def template_def)
  have bad: "\<not> truthy_str (jwt_token (token_request ''secret'' ''bad'')) \<or> jwt test_env = None \<or>
      (jwt test_env = Some \<lparr>secret = JStr ''s3cr3t''\<rparr> \<and>
       verifyAsync test_env (template (jwt_token (token_request ''secret'' ''bad'')))
         (secret \<lparr>secret = JStr ''s3cr3t''\<rparr>) = Inl ''invalid signature'')"
    using cfg rejected by simp
  have none: "\<not> truthy_str (jwt_token (key_request ''secret''))"
    by (simp add: example_defs jwt_token_def truthy_str_def)
  have present: "truthy_str (jwt_token (token_request ''secret'' ''bad''))"
    by (simp add: example_defs jwt_token_def truthy_str_def)
  have next_bad: "auth_loop test_env (token_request ''secret'' ''bad'') rules_schema [key_rule]
       (failed ''JWT Authentication Failed'') =
     (Continue (passed Undefined),
      [Perform FIND_MANY (route_rules_options test_env rules_schema APIKEY) None,
       GetSchema ''users''])"
    by (simp add: test_env_def example_defs auth_defs)
  have next_none: "auth_loop test_env (key_request ''secret'') rules_schema [key_rule]
       (failed ''JWT token required'') =
     (Continue (passed Undefined),
      [Perform FIND_MANY (route_rules_options test_env rules_schema APIKEY) None,
       GetSchema ''users''])"
    by (simp add: test_env_def example_defs auth_defs)
  have calls_bad: "snd (auth_rule test_env (token_request ''secret'' ''bad'') rules_schema
       token_rule (failed ''Unauthorized'')) =
     [Perform FIND_MANY (route_rules_options test_env rules_schema JWT) None,
      GetSchema ''users'', VerifyAsync ''bad'' (JStr ''s3cr3t'')]"
    by (simp add: test_env_def example_defs auth_defs)
  have calls_none: "snd (auth_rule test_env (key_request ''secret'') rules_schema
       token_rule (failed ''Unauthorized'')) =
     [Perform FIND_MANY (route_rules_options test_env rules_schema JWT) None,
      GetSchema ''users'']"
    by (simp add: test_env_def example_defs auth_defs)
  from token_failure_continues [OF ty rules schema invalid bad, of "[key_rule]"]
    token_failure_continues [OF ty rules schema invalid disjI1 [OF none], of "[key_rule]"]
    ty rules schema invalid cfg rejected none present next_bad next_none calls_bad calls_none
  show ?thesis by simp
qed

subsection \<open>C8: the order of the stages\<close>




subsection \<open>C9: API keys in the test environment\<close>

text \<open>
  Claim C9 says that in the test environment every applicable API-key rule whose key is
  present at the configured location records a passing result. The rule is first asked
  for the schema of its table, and when there is none \<open>auth\<close> returns an invalid result.
  Here the test environment has one API-key rule naming the table \<open>ghost\<close>, and the
  request carries the key in the configured header.
\<close>

theorem test_key_rule_without_schema_fails:
  "IsTest test_env
   \<and> a_type ghost_key_rule = Some APIKEY
   \<and> check_required (originalUrl (key_request ''secret'')) []
   \<and> request_key (key_request ''secret'') HEADER ''x-api-key'' = Inr (JStr ''secret'')
   \<and> auth_fn (test_env\<lparr>authentications := Some [ghost_key_rule]\<rparr>) (key_request ''secret'') =
     (Inr (failed ''No Schema Found For Table ghost''),
      [GetSchema ''_llana_auth'',
       Perform FIND_MANY (route_rules_options test_env rules_schema APIKEY) None,
       GetSchema ''ghost''])"
  by (simp add: ghost_key_rule_def test_env_def example_defs auth_defs)

text \<open>
  Claim C9 as amended: in the test environment, for every API-key rule whose route rules
  are read, whose table has a schema, and whose key is present at the configured
  location, the rule records a passing result with no caller identity, and its only
  calls are the route-rule lookup and the schema lookup: no \<open>FIND\<close> is performed and the
  key is compared with nothing. The rules that follow are passed over.
\<close>

theorem test_environment_skips_lookup:
  assumes "IsTest env"
    and "a_type a = Some APIKEY"
    and "perform_FIND_MANY env (route_rules_options env auth_schema APIKEY) = Inr rules_data"
    and "getSchema env (t_name (a_table a)) = Inr schema"
    and "a_name a = Some nm" and "nm \<noteq> []"
    and "a_location a = Some loc"
    and "request_key req loc nm = Inr k"
    and "\<not> valid ap"
  shows "auth_loop env req auth_schema (a # rest) ap =
           (Continue (passed Undefined),
            [Perform FIND_MANY (route_rules_options env auth_schema APIKEY) None,
             GetSchema (t_name (a_table a))])"
proof -
  from assms(8) have "truthy k"
    by (auto simp: request_key_def split: auth_location.splits if_splits)
  with assms have "auth_rule env req auth_schema a ap =
     (Continue (passed Undefined),
      [Perform FIND_MANY (route_rules_options env auth_schema APIKEY) None,
       GetSchema (t_name (a_table a))])"
    by (simp add: auth_rule_def api_key_def check_required_always truthy_str_def template_def)
  then show ?thesis
    using assms(9) by (simp add: auth_loop_valid passed_def)
qed

text \<open>Witness for C9: the test environment, an API-key rule on the table \<open>users\<close>
  followed by a token rule, and a key that no record holds.\<close>

theorem test_environment_skips_lookup_witness:
  "IsTest test_env
   \<and> a_type key_rule = Some APIKEY
   \<and> perform_FIND_MANY test_env (route_rules_options test_env rules_schema APIKEY) = Inr []
   \<and> getSchema test_env (t_name (a_table key_rule)) = Inr users_schema
   \<and> a_name key_rule = Some ''x-api-key''
   \<and> a_location key_rule = Some HEADER
   \<and> request_key (key_request ''wrong'') HEADER ''x-api-key'' = Inr (JStr ''wrong'')
   \<and> \<not> valid (failed ''Unauthorized'')
   \<and> auth_loop test_env (key_request ''wrong'') rules_schema [key_rule, token_rule]
       (failed ''Unauthorized'') =
     (Continue (passed Undefined),
      [Perform FIND_MANY (route_rules_options test_env rules_schema APIKEY) None,
       GetSchema ''users''])"
proof -
  have test: "IsTest test_env"
    by (simp add: test_env_def base_env_def)
  have ty: "a_type key_rule = Some APIKEY"
    by (simp add: key_rule_def)
  have rules: "perform_FIND_MANY test_env (route_rules_options test_env rules_schema APIKEY) =
      Inr []"
    by (simp add: test_env_def base_env_def)
  have schema: "getSchema test_env (t_name (a_table key_rule)) = Inr users_schema"
    by (simp add: test_env_def example_defs)
  have nm: "a_name key_rule = Some ''x-api-key''"
    by (simp add: key_rule_def)
  have nonempty: "''x-api-key'' \<noteq> []"
    by simp
  have loc: "a_location key_rule = Some HEADER"
    by (simp add: key_rule_def)
  have key: "request_key (key_request ''wrong'') HEADER ''x-api-key'' = Inr (JStr ''wrong'')"
    by (simp add: request_key_def header_def key_request_def)
  have invalid: "\<not> valid (failed ''Unauthorized'')"
    by (simp add: failed_def)
  from test_environment_skips_lookup
         [OF test ty rules schema nm nonempty loc key invalid, of "[token_rule]"]
    test ty rules schema nm loc key invalid
  show ?thesis by (simp add: key_rule_def)
qed

subsection \<open>C10: a schema without primary key\<close>

text \<open>
  Claim C10 says that for every resolved schema without primary key the request fails
  with a bad-request error naming the table. The primary key is looked at after
  authentication, role authorization and the validation of the body. Here the schema has
  no primary key and authentication fails: the answer is 401 \<open>Unauthorized\<close>.
\<close>

theorem no_primary_key_unauthenticated:
  "schema_getSchema no_key_unauthenticated
     (UrlToTable no_key_unauthenticated (originalUrl put_request) 1) (Some ''r1'') =
     Inr keyless_schema
   \<and> getPrimaryKey no_key_unauthenticated keyless_schema = None
   \<and> updateById no_key_unauthenticated put_request [(''x-request-id'', ''r1'')] ''42'' =
     (Sent \<lparr>status = 401, sent = Text (Some ''Unauthorized'')\<rparr>,
      [GetSchemaFor ''users'' (Some ''r1''), Auth put_request (Some ''r1'')])"
  by (simp add: no_key_unauthenticated_def no_key_services_def keyless_schema_def
      put_example_defs put_defs emit_def failed_def)

text \<open>
  Claim C10 as amended: in the update-by-id flow, for every resolved schema without
  primary key (none, or an empty name), no operation of the query engine is performed
  and the request is never answered with 200, whatever is sent; and when authentication
  has passed, the role service (asked when there is a caller identity) has granted the
  access, and the body is valid, the answer is 400 with the message
  \<open>No primary key found for table\<close> followed by the table name.
\<close>

theorem no_primary_key_rejected:
  assumes "updateById env req header_params ident = (out, tr)"
    and "schema_getSchema env (UrlToTable env (originalUrl req) 1)
           (map_of header_params ''x-request-id'') = Inr schema"
    and "\<not> truthy_str (getPrimaryKey env schema)"
  shows "(\<forall>verb opts x. Perform verb opts x \<notin> set tr)
       \<and> (\<forall>p. out \<noteq> Sent \<lparr>status = 200, sent = p\<rparr>)
       \<and> (authentication_auth env req (map_of header_params ''x-request-id'') = Inr a
            \<and> valid a
            \<and> (truthy (user_identifier a) \<longrightarrow>
                 p_valid (tablePermission env (user_identifier a)
                            (UrlToTable env (originalUrl req) 1) WRITE
                            (map_of header_params ''x-request-id'')))
            \<and> v_valid (validateData env schema (body req))
          \<longrightarrow> out = Sent \<lparr>status = 400,
                          sent = Text (Some (''No primary key found for table '' @
                                             UrlToTable env (originalUrl req) 1))\<rparr>)"
  using assms
  by (auto simp: updateById_def validate_and_update_def send_text_def Let_def emit_eq_iff
      split: sum.splits option.splits if_splits)

text \<open>Witness for C10: an authenticated, permitted request with a valid body, on a
  schema without primary key.\<close>

theorem no_primary_key_rejected_witness:
  "updateById no_key_services put_request [(''x-request-id'', ''r1'')] ''42'' =
     (Sent \<lparr>status = 400, sent = Text (Some ''No primary key found for table users'')\<rparr>,
      [GetSchemaFor ''users'' (Some ''r1''),
       Auth put_request (Some ''r1''),
       TablePermission (JNum 7) ''users'' WRITE (Some ''r1''),
       ValidateData keyless_schema [(''email'', JStr ''a@b.com'')],
       GetPrimaryKey keyless_schema])
   \<and> schema_getSchema no_key_services
       (UrlToTable no_key_services (originalUrl put_request) 1)
       (map_of [(''x-request-id'', ''r1'')] ''x-request-id'') = Inr keyless_schema
   \<and> \<not> truthy_str (getPrimaryKey no_key_services keyless_schema)
   \<and> authentication_auth no_key_services put_request
       (map_of [(''x-request-id'', ''r1'')] ''x-request-id'') = Inr (passed (JNum 7))
   \<and> valid (passed (JNum 7))
   \<and> p_valid (tablePermission no_key_services (user_identifier (passed (JNum 7)))
       (UrlToTable no_key_services (originalUrl put_request) 1) WRITE
       (map_of [(''x-request-id'', ''r1'')] ''x-request-id''))
   \<and> v_valid (validateData no_key_services keyless_schema (body put_request))
   \<and> Perform UNIQUE (unique_options ''42'') (Some ''r1'') \<notin>
       set (snd (updateById no_key_services put_request [(''x-request-id'', ''r1'')] ''42''))"
proof -
  have run: "updateById no_key_services put_request [(''x-request-id'', ''r1'')] ''42'' =
     (Sent \<lparr>status = 400, sent = Text (Some ''No primary key found for table users'')\<rparr>,
      [GetSchemaFor ''users'' (Some ''r1''),
       Auth put_request (Some ''r1''),
       TablePermission (JNum 7) ''users'' WRITE (Some ''r1''),
       ValidateData keyless_schema [(''email'', JStr ''a@b.com'')],
       GetPrimaryKey keyless_schema])"
    by (simp add: no_key_services_def keyless_schema_def put_example_defs put_defs emit_def
        truthy_str_def passed_def)
  have schema: "schema_getSchema no_key_services
       (UrlToTable no_key_services (originalUrl put_request) 1)
       (map_of [(''x-request-id'', ''r1'')] ''x-request-id'') = Inr keyless_schema"
    by (simp add: no_key_services_def put_example_defs)
  have no_key: "\<not> truthy_str (getPrimaryKey no_key_services keyless_schema)"
    by (simp add: no_key_services_def keyless_schema_def put_example_defs truthy_str_def)
  have authenticated: "authentication_auth no_key_services put_request
       (map_of [(''x-request-id'', ''r1'')] ''x-request-id'') = Inr (passed (JNum 7))"
    by (simp add: no_key_services_def put_services_def)
  have ok: "valid (passed (JNum 7))"
    by (simp add: passed_def)
  have granted: "p_valid (tablePermission no_key_services (user_identifier (passed (JNum 7)))
       (UrlToTable no_key_services (originalUrl put_request) 1) WRITE
       (map_of [(''x-request-id'', ''r1'')] ''x-request-id''))"
    by (simp add: no_key_services_def put_services_def)
  have body_ok: "v_valid (validateData no_key_services keyless_schema (body put_request))"
    by (simp add: no_key_services_def put_services_def)
  from no_primary_key_rejected [OF run schema no_key, of "passed (JNum 7)"]
    run schema no_key authenticated ok granted body_ok
  show ?thesis by simp
qed

end
